theory Spec2Isabelle
  imports Complex_Main
begin

section \<open>Python string primitives\<close>

text \<open>
  Python \<open>str\<close> values are modelled as \<open>string\<close> (lists of 8-bit characters), so the
  model covers the ASCII fragment of the source's text handling. \<open>is_space\<close> is the
  ASCII part of what \<open>str.strip\<close>, \<open>str.split\<close> and the regular expression class
  \<open>\s\<close> treat as whitespace.
\<close>

definition is_space :: "char \<Rightarrow> bool" where
  "is_space c = (of_char c \<in> {9, 10, 11, 12, 13, 28, 29, 30, 31, 32 :: nat})"

definition is_digit :: "char \<Rightarrow> bool" where
  "is_digit c = (48 \<le> (of_char c :: nat) \<and> (of_char c :: nat) \<le> 57)"

definition strip :: "string \<Rightarrow> string" where
  "strip s = rev (dropWhile is_space (rev (dropWhile is_space s)))"

definition lower_char :: "char \<Rightarrow> char" where
  "lower_char c = (let n = (of_char c :: nat) in if 65 \<le> n \<and> n \<le> 90 then char_of (n + 32) else c)"

definition upper_char :: "char \<Rightarrow> char" where
  "upper_char c = (let n = (of_char c :: nat) in if 97 \<le> n \<and> n \<le> 122 then char_of (n - 32) else c)"

definition lower :: "string \<Rightarrow> string" where
  "lower s = map lower_char s"

definition upper :: "string \<Rightarrow> string" where
  "upper s = map upper_char s"

definition startswith :: "string \<Rightarrow> string \<Rightarrow> bool" where
  "startswith s p = (take (length p) s = p)"

definition endswith :: "string \<Rightarrow> string \<Rightarrow> bool" where
  "endswith s p = (length p \<le> length s \<and> drop (length s - length p) s = p)"

text \<open>\<open>contains s sub\<close> is Python's \<open>sub in s\<close> on strings.\<close>

fun contains :: "string \<Rightarrow> string \<Rightarrow> bool" where
  "contains [] sub = (sub = [])"
| "contains (c # cs) sub = (startswith (c # cs) sub \<or> contains cs sub)"

text \<open>\<open>str.find\<close> and \<open>str.rfind\<close> of a single character: the index, or \<open>-1\<close>.\<close>

fun find_from :: "nat \<Rightarrow> string \<Rightarrow> char \<Rightarrow> int" where
  "find_from i [] c = -1"
| "find_from i (x # xs) c = (if x = c then int i else find_from (Suc i) xs c)"

definition py_find :: "string \<Rightarrow> char \<Rightarrow> int" where
  "py_find s c = find_from 0 s c"

fun rfind_from :: "int \<Rightarrow> nat \<Rightarrow> string \<Rightarrow> char \<Rightarrow> int" where
  "rfind_from best i [] c = best"
| "rfind_from best i (x # xs) c = rfind_from (if x = c then int i else best) (Suc i) xs c"

definition py_rfind :: "string \<Rightarrow> char \<Rightarrow> int" where
  "py_rfind s c = rfind_from (-1) 0 s c"

text \<open>\<open>slice s a b\<close> is \<open>s[a:b]\<close> for indices \<open>0 \<le> a\<close>, \<open>0 \<le> b\<close>.\<close>

definition slice :: "'a list \<Rightarrow> int \<Rightarrow> int \<Rightarrow> 'a list" where
  "slice s a b = take (nat b - nat a) (drop (nat a) s)"

section \<open>Content gateway: JSON block extraction\<close>

definition extract_json_block :: "string \<Rightarrow> string" where
  "extract_json_block text =
     (let stripped = strip text in
      if startswith stripped ''{'' \<and> endswith stripped ''}'' then stripped
      else if startswith stripped ''['' \<and> endswith stripped '']'' then stripped
      else
        let start = py_find stripped (CHR ''{''); end = py_rfind stripped (CHR ''}'') in
        if start \<noteq> -1 \<and> end \<noteq> -1 \<and> end > start then slice stripped start (end + 1)
        else
          let list_start = py_find stripped (CHR ''[''); list_end = py_rfind stripped (CHR '']'') in
          if list_start \<noteq> -1 \<and> list_end \<noteq> -1 \<and> list_end > list_start
          then slice stripped list_start (list_end + 1)
          else ''{}'')"

section \<open>Content gateway: decoded JSON\<close>

text \<open>
  A decoded JSON value, as \<open>json.loads\<close> and \<open>response.json()\<close> return it. An object is
  the association list of its decoded dictionary. \<open>truthy\<close> is Python's truth value,
  \<open>py_or\<close> the expression \<open>a or b\<close>, \<open>dict_get\<close> is \<open>d.get(k)\<close> (with \<open>None\<close> and JSON
  \<open>null\<close> both \<open>JNull\<close>) and \<open>dict_get_default\<close> is \<open>d.get(k, default)\<close>.
\<close>

datatype json =
    JNull
  | JBool bool
  | JInt int
  | JNum real
  | JStr string
  | JArr "json list"
  | JObj "(string \<times> json) list"

datatype py_error = AttributeError

fun truthy :: "json \<Rightarrow> bool" where
  "truthy JNull = False"
| "truthy (JBool b) = b"
| "truthy (JInt i) = (i \<noteq> 0)"
| "truthy (JNum r) = (r \<noteq> 0)"
| "truthy (JStr s) = (s \<noteq> [])"
| "truthy (JArr xs) = (xs \<noteq> [])"
| "truthy (JObj kvs) = (kvs \<noteq> [])"

definition py_or :: "json \<Rightarrow> json \<Rightarrow> json" where
  "py_or a b = (if truthy a then a else b)"

definition dict_get :: "(string \<times> json) list \<Rightarrow> string \<Rightarrow> json" where
  "dict_get d k = (case map_of d k of None \<Rightarrow> JNull | Some v \<Rightarrow> v)"

definition dict_get_default :: "(string \<times> json) list \<Rightarrow> string \<Rightarrow> json \<Rightarrow> json" where
  "dict_get_default d k dflt = (case map_of d k of None \<Rightarrow> dflt | Some v \<Rightarrow> v)"

text \<open>
  The library functions the gateway calls on decoded values: \<open>json.loads\<close> (\<open>None\<close> when it
  raises \<open>JSONDecodeError\<close>), the builtin \<open>str\<close> and the builtin \<open>float\<close> (\<open>None\<close> when it
  raises \<open>TypeError\<close> or \<open>ValueError\<close>). They are parameters of the model.
\<close>

record pylib =
  json_loads :: "string \<Rightarrow> json option"
  py_str :: "json \<Rightarrow> string"
  py_float :: "json \<Rightarrow> real option"

fun join :: "string \<Rightarrow> string list \<Rightarrow> string" where
  "join sep [] = []"
| "join sep [x] = x"
| "join sep (x # y # ys) = x @ sep @ join sep (y # ys)"

fun digits_of :: "nat \<Rightarrow> string" where
  "digits_of n = (if n < 10 then [char_of (48 + n)] else digits_of (n div 10) @ [char_of (48 + n mod 10)])"

text \<open>\<open>str_int\<close> is \<open>str\<close> on an integer.\<close>

definition str_int :: "int \<Rightarrow> string" where
  "str_int i = (if i < 0 then CHR ''-'' # digits_of (nat (- i)) else digits_of (nat i))"

text \<open>\<open>collapse_ws\<close> is \<open>re.sub(r"\s+", " ", s)\<close>: every maximal run of whitespace becomes one space.\<close>

function collapse_ws :: "string \<Rightarrow> string" where
  "collapse_ws [] = []"
| "collapse_ws (c # cs) =
     (if is_space c then CHR '' '' # collapse_ws (dropWhile is_space cs) else c # collapse_ws cs)"
  by pat_completeness auto
termination
  by (relation "measure length") (auto simp: length_dropWhile_le le_imp_less_Suc)

section \<open>Content gateway: response envelope\<close>

fun text_parts :: "json list \<Rightarrow> string list" where
  "text_parts [] = []"
| "text_parts (JObj d # rest) =
     (if dict_get d ''type'' = JStr ''text''
      then (case dict_get_default d ''text'' (JStr []) of
              JStr t \<Rightarrow> t # text_parts rest
            | _ \<Rightarrow> text_parts rest)
      else text_parts rest)"
| "text_parts (_ # rest) = text_parts rest"

text \<open>
  \<open>extract_content\<close> calls \<open>.get\<close> on the body, on the first choice and on its message
  without checking that they are dictionaries: on any other value Python raises
  \<open>AttributeError\<close>, which nothing in the gateway catches.
\<close>

definition extract_content :: "json \<Rightarrow> py_error + string" where
  "extract_content body =
     (case body of
        JObj b \<Rightarrow>
          (case dict_get b ''choices'' of
             JArr (first # _) \<Rightarrow>
               (case first of
                  JObj ch \<Rightarrow>
                    (case dict_get_default ch ''message'' (JObj []) of
                       JObj message \<Rightarrow>
                         (case dict_get_default message ''content'' (JStr []) of
                            JStr s \<Rightarrow> Inr s
                          | JArr items \<Rightarrow> Inr (join [CHR 0x0A] (text_parts items))
                          | _ \<Rightarrow> Inr [])
                     | _ \<Rightarrow> Inl AttributeError)
                | _ \<Rightarrow> Inl AttributeError)
           | _ \<Rightarrow> Inr [])
      | _ \<Rightarrow> Inl AttributeError)"

definition extract_error_code :: "json \<Rightarrow> py_error + string" where
  "extract_error_code body =
     (case body of
        JObj b \<Rightarrow>
          (case dict_get b ''error'' of
             JObj error \<Rightarrow>
               (case dict_get error ''code'' of
                  JStr code \<Rightarrow> Inr (strip code)
                | _ \<Rightarrow>
                  (case dict_get error ''type'' of
                     JStr error_type \<Rightarrow> Inr (strip error_type)
                   | _ \<Rightarrow>
                     (case dict_get error ''message'' of
                        JStr message \<Rightarrow>
                          Inr (take 80 (map (\<lambda>c. if c = CHR '' '' then CHR ''_'' else c)
                                          (lower (strip message))))
                      | _ \<Rightarrow> Inr [])))
           | _ \<Rightarrow> Inr [])
      | _ \<Rightarrow> Inl AttributeError)"

section \<open>Content gateway: cooldown state and the request protocol\<close>

text \<open>
  The client's mutable state is the shared suspension window and the last error code; its
  configured timeout is constant. Clock readings of \<open>time.time()\<close> are modelled as real
  numbers.

  One exchange with the dependency is what a post would meet: the clock reading when the
  request is issued, the outcome of the post, and the clock reading when the client
  handles that outcome. The post raises \<open>asyncio.TimeoutError\<close>, \<open>httpx.TimeoutException\<close>
  or another \<open>httpx.HTTPError\<close>, or a response with a status code arrives, whose body
  \<open>response.json()\<close> decodes (\<open>None\<close> when it raises \<open>ValueError\<close>).

  Every request function returns its value (or the exception it propagates), the client
  state afterwards and the list of posts it made, each recorded by its timeout. The prompt
  text, the temperature and the headers only fill the payload and are left out.
\<close>

record client =
  timeout_seconds :: real
  suspend_until :: real
  last_error :: string

datatype outcome =
    AsyncTimeout
  | TransportTimeout
  | TransportError
  | Response int "json option"

record exchange =
  issued_at :: real
  outcome :: outcome
  handled_at :: real

definition lang_of :: "string \<Rightarrow> string" where
  "lang_of language = (if language \<in> {''ar'', ''en''} then language else ''ar'')"

definition request_json ::
  "pylib \<Rightarrow> client \<Rightarrow> real option \<Rightarrow> bool \<Rightarrow> exchange
     \<Rightarrow> (py_error + (string \<times> json) list option) \<times> client \<times> real list" where
  "request_json lib self timeout respect_suspend ex =
     (if respect_suspend \<and> issued_at ex < suspend_until self then (Inr None, self, [])
      else
        let request_timeout = max 3 (case timeout of Some t \<Rightarrow> t | None \<Rightarrow> timeout_seconds self);
            posted = [request_timeout];
            now = handled_at ex
        in case outcome ex of
             AsyncTimeout \<Rightarrow>
               (Inr None,
                self\<lparr>last_error := ''timeout'',
                     suspend_until := (if respect_suspend then now + 20 else suspend_until self)\<rparr>,
                posted)
           | TransportTimeout \<Rightarrow>
               (Inr None,
                self\<lparr>last_error := ''timeout'',
                     suspend_until := (if respect_suspend then now + 20 else suspend_until self)\<rparr>,
                posted)
           | TransportError \<Rightarrow>
               (Inr None,
                self\<lparr>last_error := ''network_error'',
                     suspend_until := (if respect_suspend then now + 60 else suspend_until self)\<rparr>,
                posted)
           | Response status None \<Rightarrow>
               (Inr None,
                self\<lparr>last_error := ''network_error'',
                     suspend_until := (if respect_suspend then now + 60 else suspend_until self)\<rparr>,
                posted)
           | Response status (Some body) \<Rightarrow>
               if status \<ge> 400 then
                 (case extract_error_code body of
                    Inl e \<Rightarrow> (Inl e, self, posted)
                  | Inr code \<Rightarrow>
                      let err = (if code \<noteq> [] then code else ''http_'' @ str_int status) in
                      (Inr None,
                       self\<lparr>last_error := err,
                            suspend_until :=
                              (if respect_suspend then
                                 (if status \<in> {401, 403} then now + 300
                                  else if status = 429 then
                                    (if err = ''insufficient_quota'' then now + 1800 else now + 120)
                                  else now + 60)
                               else suspend_until self)\<rparr>,
                       posted))
               else
                 (case extract_content body of
                    Inl e \<Rightarrow> (Inl e, self, posted)
                  | Inr content \<Rightarrow>
                      if content = [] then (Inr None, self\<lparr>last_error := ''empty_content''\<rparr>, posted)
                      else
                        (case json_loads lib (extract_json_block content) of
                           None \<Rightarrow> (Inr None, self\<lparr>last_error := ''invalid_json''\<rparr>, posted)
                         | Some (JArr items) \<Rightarrow>
                             (Inr (Some [(''quiz'', JArr items)]), self\<lparr>last_error := []\<rparr>, posted)
                         | Some (JObj parsed) \<Rightarrow>
                             (Inr (Some parsed), self\<lparr>last_error := []\<rparr>, posted)
                         | Some _ \<Rightarrow>
                             (Inr None, self\<lparr>last_error := ''invalid_json_shape''\<rparr>, posted))))"

text \<open>
  \<open>request_text\<close> is the plain-text variant behind \<open>answer_question\<close>. It has no
  \<open>respect_suspend\<close> parameter: it never compares the clock with the suspension window
  before posting, and it always writes the window on a failure.
\<close>

definition request_text ::
  "client \<Rightarrow> real option \<Rightarrow> exchange \<Rightarrow> (py_error + string option) \<times> client \<times> real list" where
  "request_text self timeout ex =
     (let request_timeout = max 3 (case timeout of Some t \<Rightarrow> t | None \<Rightarrow> timeout_seconds self);
          posted = [request_timeout];
          now = handled_at ex
      in case outcome ex of
           AsyncTimeout \<Rightarrow>
             (Inr None, self\<lparr>last_error := ''timeout'', suspend_until := now + 20\<rparr>, posted)
         | TransportTimeout \<Rightarrow>
             (Inr None, self\<lparr>last_error := ''timeout'', suspend_until := now + 20\<rparr>, posted)
         | TransportError \<Rightarrow>
             (Inr None, self\<lparr>last_error := ''network_error'', suspend_until := now + 60\<rparr>, posted)
         | Response status None \<Rightarrow>
             (Inr None, self\<lparr>last_error := ''network_error'', suspend_until := now + 60\<rparr>, posted)
         | Response status (Some body) \<Rightarrow>
             if status \<ge> 400 then
               (case extract_error_code body of
                  Inl e \<Rightarrow> (Inl e, self, posted)
                | Inr code \<Rightarrow>
                    let err = (if code \<noteq> [] then code else ''http_'' @ str_int status) in
                    (Inr None,
                     self\<lparr>last_error := err,
                          suspend_until :=
                            (if status \<in> {401, 403} then now + 300
                             else if status = 429 then
                               (if err = ''insufficient_quota'' then now + 1800 else now + 120)
                             else now + 60)\<rparr>,
                     posted))
             else
               (case extract_content body of
                  Inl e \<Rightarrow> (Inl e, self, posted)
                | Inr content \<Rightarrow>
                    if content = [] then (Inr None, self\<lparr>last_error := ''empty_content''\<rparr>, posted)
                    else (Inr (Some (strip content)), self\<lparr>last_error := []\<rparr>, posted)))"

section \<open>Data model\<close>

text \<open>
  The option dictionary of a question is an association list in insertion order, which
  the variant generator and the answer normaliser iterate over. Arabic literals of the
  source are written as ASCII stand-ins marked \<open>[ar]\<close>.
\<close>

record quiz_question =
  prompt :: string
  options :: "(string \<times> string) list"
  answer :: string
  explanation :: string

record lesson =
  lesson_id :: string
  lesson_level :: string
  title :: string
  objective :: string
  bullet_points :: "string list"
  example :: string
  quiz :: "quiz_question list"
  premium_only :: bool

section \<open>Content gateway: field normalisation\<close>

definition safe_text :: "json \<Rightarrow> string \<Rightarrow> string" where
  "safe_text value dflt =
     (case value of
        JStr s \<Rightarrow> (let normalized = strip (collapse_ws s) in
                   if normalized \<noteq> [] then normalized else dflt)
      | _ \<Rightarrow> dflt)"

fun text_items :: "json list \<Rightarrow> string list" where
  "text_items [] = []"
| "text_items (JStr s # rest) =
     (let normalized = strip (collapse_ws s) in
      if normalized \<noteq> [] then normalized # text_items rest else text_items rest)"
| "text_items (_ # rest) = text_items rest"

definition safe_list_of_text :: "json \<Rightarrow> nat \<Rightarrow> string list" where
  "safe_list_of_text value fallback_count =
     (case value of JArr items \<Rightarrow> text_items items | _ \<Rightarrow> replicate fallback_count [])"

definition OPTION_KEYS :: "string list" where
  "OPTION_KEYS = [''A'', ''B'', ''C'', ''D'']"

definition dict_option :: "(string \<times> json) list \<Rightarrow> string \<Rightarrow> (string \<times> string) list" where
  "dict_option options_raw key =
     (case py_or (dict_get options_raw key) (dict_get options_raw (lower key)) of
        JStr v \<Rightarrow> if strip v \<noteq> [] then [(key, strip v)] else []
      | _ \<Rightarrow> [])"

fun option_values :: "pylib \<Rightarrow> json list \<Rightarrow> string list" where
  "option_values lib [] = []"
| "option_values lib (JObj d # rest) =
     (case py_or (py_or (dict_get d ''text'') (dict_get d ''option'')) (dict_get d ''value'') of
        JStr v \<Rightarrow> if strip v \<noteq> [] then strip v # option_values lib rest else option_values lib rest
      | _ \<Rightarrow> option_values lib rest)"
| "option_values lib (JStr s # rest) =
     (if strip s \<noteq> [] then strip s # option_values lib rest else option_values lib rest)"
| "option_values lib (item # rest) =
     (let text = strip (py_str lib item) in
      if text \<noteq> [] then text # option_values lib rest else option_values lib rest)"

definition normalize_options :: "pylib \<Rightarrow> json \<Rightarrow> (string \<times> string) list" where
  "normalize_options lib options_raw =
     (case options_raw of
        JObj d \<Rightarrow>
          (let normalized = concat (map (dict_option d) OPTION_KEYS) in
           if length normalized = 4 then normalized else [])
      | JArr items \<Rightarrow>
          (let values = option_values lib items in
           if length values \<ge> 4 then zip OPTION_KEYS values else [])
      | _ \<Rightarrow> [])"

definition normalize_answer :: "json \<Rightarrow> (string \<times> string) list \<Rightarrow> string" where
  "normalize_answer raw_answer opts =
     (case raw_answer of
        JStr r \<Rightarrow>
          (let key = upper (strip r) in
           if key \<in> fst ` set opts then key
           else (case List.find (\<lambda>(option_key, option_text).
                                   lower (strip option_text) = lower (strip r)) opts of
                   Some (option_key, _) \<Rightarrow> option_key
                 | None \<Rightarrow> ''A''))
      | JInt n \<Rightarrow> if 1 \<le> n \<and> n \<le> 4 then OPTION_KEYS ! nat (n - 1) else ''A''
      | _ \<Rightarrow> ''A'')"

fun parse_items :: "pylib \<Rightarrow> string \<Rightarrow> json list \<Rightarrow> quiz_question list" where
  "parse_items lib fallback_expl [] = []"
| "parse_items lib fallback_expl (JObj item # rest) =
     (let prompt = safe_text (py_or (dict_get item ''prompt'') (dict_get item ''question'')) [];
          explanation = safe_text (py_or (py_or (dict_get item ''explanation'')
                                                (dict_get item ''reasoning''))
                                         (dict_get item ''why'')) fallback_expl;
          opts = normalize_options lib (py_or (dict_get item ''options'') (dict_get item ''choices''))
      in if prompt = [] \<or> length opts < 4 then parse_items lib fallback_expl rest
         else
           \<lparr>prompt = prompt, options = opts,
            answer = normalize_answer (py_or (py_or (dict_get item ''answer'')
                                                    (dict_get item ''correct_answer''))
                                             (dict_get item ''correct'')) opts,
            explanation = explanation\<rparr> # parse_items lib fallback_expl rest)"
| "parse_items lib fallback_expl (_ # rest) = parse_items lib fallback_expl rest"

definition parse_quiz :: "pylib \<Rightarrow> json \<Rightarrow> string \<Rightarrow> quiz_question list" where
  "parse_quiz lib raw language =
     (case raw of
        JArr items \<Rightarrow>
          parse_items lib
            (if lang_of language = ''en'' then ''Review risk logic first.''
             else ''[ar] Review risk logic first.'') items
      | _ \<Rightarrow> [])"

section \<open>Content gateway: quiz packs\<close>

definition fallback_quiz :: "string \<Rightarrow> quiz_question list" where
  "fallback_quiz language =
     (if lang_of language = ''en'' then
        [\<lparr>prompt = ''What must be defined before any entry?'',
          options = [(''A'', ''Invalidation point and risk limit''),
                     (''B'', ''Guaranteed outcome''),
                     (''C'', ''Maximum leverage''),
                     (''D'', ''A social media signal'')],
          answer = ''A'',
          explanation = ''Every trade needs invalidation and controlled risk.''\<rparr>,
         \<lparr>prompt = ''Which mindset is more professional?'',
          options = [(''A'', ''Win every trade''),
                     (''B'', ''Process consistency over short-term outcomes''),
                     (''C'', ''Double risk after a loss''),
                     (''D'', ''Enter every opportunity'')],
          answer = ''B'',
          explanation = ''Professional growth comes from repeatable process quality.''\<rparr>]
      else
        [\<lparr>prompt = ''[ar] What must be defined before any entry?'',
          options = [(''A'', ''[ar] Invalidation point and risk limit''),
                     (''B'', ''[ar] Guaranteed outcome''),
                     (''C'', ''[ar] Maximum leverage''),
                     (''D'', ''[ar] A social media signal'')],
          answer = ''A'',
          explanation = ''[ar] Every trade needs invalidation and controlled risk.''\<rparr>,
         \<lparr>prompt = ''[ar] Which mindset is more professional?'',
          options = [(''A'', ''[ar] Win every trade''),
                     (''B'', ''[ar] Process consistency over short-term outcomes''),
                     (''C'', ''[ar] Double risk after a loss''),
                     (''D'', ''[ar] Enter every opportunity'')],
          answer = ''B'',
          explanation = ''[ar] Professional growth comes from repeatable process quality.''\<rparr>])"

text \<open>
  The padding loop of \<open>_ensure_quiz_count\<close>: while the list is short, append the seed
  question at \<open>index mod len(seed)\<close> with the new length in parentheses after its prompt.
\<close>

definition padded_question :: "quiz_question \<Rightarrow> nat \<Rightarrow> quiz_question" where
  "padded_question base suffix =
     \<lparr>prompt = prompt base @ '' ('' @ str_int (int suffix) @ '')'',
      options = options base, answer = answer base, explanation = explanation base\<rparr>"

function pad_quiz ::
  "quiz_question list \<Rightarrow> quiz_question list \<Rightarrow> int \<Rightarrow> nat \<Rightarrow> quiz_question list" where
  "pad_quiz seed padded count index =
     (if int (length padded) < count
      then pad_quiz seed
             (padded @ [padded_question (seed ! (index mod length seed)) (length padded + 1)])
             count (index + 1)
      else padded)"
  by pat_completeness auto
termination
  by (relation "measure (\<lambda>(seed, padded, count, index). nat (count - int (length padded)))") auto

definition ensure_quiz_count :: "quiz_question list \<Rightarrow> int \<Rightarrow> string \<Rightarrow> quiz_question list" where
  "ensure_quiz_count qs count language =
     (if count \<le> 0 then []
      else if int (length qs) \<ge> count then take (nat count) qs
      else pad_quiz (fallback_quiz language) qs count 0)"

text \<open>
  A chunk fetch is the one request made with \<open>respect_suspend = False\<close>, with a timeout
  of at least 90 seconds.
\<close>

definition fetch_chunk ::
  "pylib \<Rightarrow> string \<Rightarrow> client \<Rightarrow> exchange \<Rightarrow> int
     \<Rightarrow> (py_error + quiz_question list) \<times> client \<times> real list" where
  "fetch_chunk lib lang self ex chunk_target =
     (case request_json lib self (Some (max (timeout_seconds self) 90)) False ex of
        (Inl e, self', posted) \<Rightarrow> (Inl e, self', posted)
      | (Inr None, self', posted) \<Rightarrow> (Inr [], self', posted)
      | (Inr (Some data), self', posted) \<Rightarrow>
          if data = [] then (Inr [], self', posted)
          else (Inr (take (nat chunk_target) (parse_quiz lib (dict_get data ''quiz'') lang)),
                self', posted))"

text \<open>
  The chunk loop: chunk \<open>k\<close> meets the exchange \<open>net k\<close>; an exception of a chunk fetch
  leaves the loop and the whole call.
\<close>

fun fetch_chunks ::
  "pylib \<Rightarrow> string \<Rightarrow> int \<Rightarrow> (nat \<Rightarrow> exchange) \<Rightarrow> nat list \<Rightarrow> client
     \<Rightarrow> quiz_question list \<Rightarrow> real list
     \<Rightarrow> (py_error + quiz_question list) \<times> client \<times> real list" where
  "fetch_chunks lib lang quiz_count net [] self merged posted = (Inr merged, self, posted)"
| "fetch_chunks lib lang quiz_count net (chunk_index # rest) self merged posted =
     (let start = int chunk_index * 25;
          target = min 25 (quiz_count - start)
      in case fetch_chunk lib lang self (net chunk_index) target of
           (Inl e, self', p) \<Rightarrow> (Inl e, self', posted @ p)
         | (Inr result, self', p) \<Rightarrow>
             fetch_chunks lib lang quiz_count net rest self' (merged @ result) (posted @ p))"

definition generate_lesson_quiz_pack ::
  "pylib \<Rightarrow> client \<Rightarrow> int \<Rightarrow> string \<Rightarrow> (nat \<Rightarrow> exchange)
     \<Rightarrow> (py_error + quiz_question list) \<times> client \<times> real list" where
  "generate_lesson_quiz_pack lib self quiz_count language net =
     (if quiz_count \<le> 0 then (Inr [], self, [])
      else
        let lang = lang_of language;
            chunk_size = 25;
            total_chunks = (quiz_count + chunk_size - 1) div chunk_size
        in case fetch_chunks lib lang quiz_count net [0..<nat total_chunks] self [] [] of
             (Inl e, self', posted) \<Rightarrow> (Inl e, self', posted)
           | (Inr merged, self', posted) \<Rightarrow>
               (Inr (ensure_quiz_count merged quiz_count lang), self', posted))"

section \<open>Content gateway: the other public operations\<close>

definition fallback_bullets :: "string \<Rightarrow> string list" where
  "fallback_bullets language =
     (if lang_of language = ''en'' then
        [''Define invalidation before every entry.'',
         ''Use small, consistent risk per trade.'',
         ''Avoid emotional and revenge trading.'',
         ''Journal executions and review process quality.'']
      else
        [''[ar] Define invalidation before every entry.'',
         ''[ar] Use small, consistent risk per trade.'',
         ''[ar] Avoid emotional and revenge trading.'',
         ''[ar] Journal executions and review process quality.''])"

text \<open>\<open>fresh_id\<close> stands for the ten hexadecimal digits taken from \<open>uuid.uuid4()\<close>.\<close>

definition parse_lesson ::
  "pylib \<Rightarrow> string \<Rightarrow> (string \<times> json) list \<Rightarrow> string \<Rightarrow> string \<Rightarrow> lesson" where
  "parse_lesson lib fresh_id data level language =
     (let lang = lang_of language;
          title_default = (if lang = ''en'' then ''AI Lesson'' else ''[ar] AI Lesson'');
          objective_default =
            (if lang = ''en'' then ''Build a disciplined process that starts with risk management.''
             else ''[ar] Build a disciplined process that starts with risk management.'');
          example_default =
            (if lang = ''en'' then ''Plan the trade before entry with clear invalidation.''
             else ''[ar] Plan the trade before entry with clear invalidation.'');
          points = safe_list_of_text (dict_get data ''bullet_points'') 4;
          points4 = (if length points < 4 then take 4 (points @ fallback_bullets lang) else points)
      in \<lparr>lesson_id = ''AI-'' @ fresh_id,
          lesson_level = level,
          title = safe_text (dict_get data ''title'') title_default,
          objective = safe_text (dict_get data ''objective'') objective_default,
          bullet_points = take 4 points4,
          example = safe_text (dict_get data ''example'') example_default,
          quiz = parse_quiz lib (dict_get data ''quiz'') lang,
          premium_only = False\<rparr>)"

definition generate_lesson ::
  "pylib \<Rightarrow> client \<Rightarrow> string \<Rightarrow> string \<Rightarrow> string \<Rightarrow> exchange
     \<Rightarrow> (py_error + lesson option) \<times> client \<times> real list" where
  "generate_lesson lib self fresh_id level language ex =
     (let lang = lang_of language in
      case request_json lib self None True ex of
        (Inl e, self', posted) \<Rightarrow> (Inl e, self', posted)
      | (Inr None, self', posted) \<Rightarrow> (Inr None, self', posted)
      | (Inr (Some data), self', posted) \<Rightarrow>
          if data = [] then (Inr None, self', posted)
          else (Inr (Some (parse_lesson lib fresh_id data level lang)), self', posted))"

record scenario =
  sc_symbol :: string
  sc_entry :: real
  sc_support :: real
  sc_resistance :: real
  sc_context :: string

definition parse_simulation :: "pylib \<Rightarrow> (string \<times> json) list \<Rightarrow> string \<Rightarrow> scenario option" where
  "parse_simulation lib data language =
     (let lang = lang_of language;
          sym = safe_text (dict_get data ''symbol'') [];
          default_context = (if lang = ''en'' then ''Use your plan, not predictions.''
                             else ''[ar] Use your plan, not predictions.'')
      in case (py_float lib (dict_get data ''entry''), py_float lib (dict_get data ''support''),
               py_float lib (dict_get data ''resistance'')) of
           (Some e, Some s, Some r) \<Rightarrow>
             if sym = [] then None
             else Some \<lparr>sc_symbol = upper sym, sc_entry = e, sc_support = s, sc_resistance = r,
                        sc_context = safe_text (dict_get data ''context'') default_context\<rparr>
         | _ \<Rightarrow> None)"

definition generate_simulation ::
  "pylib \<Rightarrow> client \<Rightarrow> string \<Rightarrow> exchange \<Rightarrow> (py_error + scenario option) \<times> client \<times> real list" where
  "generate_simulation lib self language ex =
     (let lang = lang_of language in
      case request_json lib self None True ex of
        (Inl e, self', posted) \<Rightarrow> (Inl e, self', posted)
      | (Inr None, self', posted) \<Rightarrow> (Inr None, self', posted)
      | (Inr (Some data), self', posted) \<Rightarrow>
          if data = [] then (Inr None, self', posted)
          else (Inr (parse_simulation lib data lang), self', posted))"

record challenge =
  challenge_prompt :: string
  challenge_keywords :: "string list"

definition parse_daily_challenge :: "(string \<times> json) list \<Rightarrow> string \<Rightarrow> challenge option" where
  "parse_daily_challenge data language =
     (let lang = lang_of language;
          p = safe_text (dict_get data ''prompt'') [];
          kws = take 4 (safe_list_of_text (dict_get data ''expected_keywords'') 4);
          keywords =
            (if length kws < 4 then
               (if lang = ''en'' then [''risk'', ''invalidation'', ''structure'', ''confirmation'']
                else [''[ar] risk'', ''[ar] invalidation'', ''[ar] structure'', ''[ar] confirmation''])
             else kws)
      in if p = [] then None
         else
           let prompt_lower = lower p in
           if lang = ''en'' then
             Some \<lparr>challenge_prompt =
                     (if \<not> startswith prompt_lower ''daily challenge'' then ''Daily Challenge: '' @ p else p),
                   challenge_keywords = keywords\<rparr>
           else
             Some \<lparr>challenge_prompt =
                     (if \<not> (startswith prompt_lower ''[ar] daily challenge''
                             \<or> startswith prompt_lower ''daily challenge'')
                      then ''[ar] Daily Challenge: '' @ p else p),
                   challenge_keywords = keywords\<rparr>)"

definition generate_daily_challenge ::
  "pylib \<Rightarrow> client \<Rightarrow> string \<Rightarrow> exchange \<Rightarrow> (py_error + challenge option) \<times> client \<times> real list" where
  "generate_daily_challenge lib self language ex =
     (let lang = lang_of language in
      case request_json lib self None True ex of
        (Inl e, self', posted) \<Rightarrow> (Inl e, self', posted)
      | (Inr None, self', posted) \<Rightarrow> (Inr None, self', posted)
      | (Inr (Some data), self', posted) \<Rightarrow>
          if data = [] then (Inr None, self', posted)
          else (Inr (parse_daily_challenge data lang), self', posted))"

text \<open>
  \<open>answer_question\<close> chooses the reply language from the question's script, builds the
  prompt and returns what \<open>_request_text\<close> returns.
\<close>

definition answer_question ::
  "client \<Rightarrow> string \<Rightarrow> exchange \<Rightarrow> (py_error + string option) \<times> client \<times> real list" where
  "answer_question self question ex = request_text self None ex"

section \<open>Session state\<close>

record quiz_state =
  qs_lesson_id :: string
  questions :: "quiz_question list"
  current_index :: int
  score :: int
  is_dynamic :: bool
  qs_level :: string

record simulation_state =
  symbol :: string
  entry :: real
  support :: real
  resistance :: real
  sim_context :: string
  stage :: string
  direction :: "string option"
  stop_loss :: "real option"
  take_profit :: "real option"

record daily_challenge_state =
  dc_prompt :: string
  expected_keywords :: "string list"

record user_session =
  user_id :: int
  level :: string
  access :: string
  focus :: string
  language :: string
  assistant_mode :: bool
  completed_lessons :: "string set"
  quiz_variant_history :: "string \<Rightarrow> string set option"
  ai_recent_lesson_titles :: "string list"
  ai_recent_quiz_prompts :: "string list"
  ai_lessons_completed :: int
  ai_simulations_completed :: int
  ai_challenges_completed :: int
  pending_lesson :: "lesson option"
  quiz_state :: "quiz_state option"
  simulation_state :: "simulation_state option"
  daily_challenge_state :: "daily_challenge_state option"

definition new_session :: "int \<Rightarrow> user_session" where
  "new_session uid =
     \<lparr>user_id = uid, level = ''beginner'', access = ''free'', focus = ''both'', language = ''ar'',
      assistant_mode = False, completed_lessons = {}, quiz_variant_history = Map.empty,
      ai_recent_lesson_titles = [], ai_recent_quiz_prompts = [],
      ai_lessons_completed = 0, ai_simulations_completed = 0, ai_challenges_completed = 0,
      pending_lesson = None, quiz_state = None, simulation_state = None,
      daily_challenge_state = None\<rparr>"

section \<open>Quiz variant generator\<close>

text \<open>
  The generator draws from Python's \<open>random\<close> module. The random source is a stream of
  raw natural numbers read at a cursor: \<open>randbelow\<close> reduces the number under the cursor
  modulo its bound and advances the cursor, and \<open>random.choice\<close>, \<open>random.randrange\<close>,
  \<open>random.randint\<close> and \<open>random.shuffle\<close> are built on it as in CPython.
\<close>

definition randbelow :: "(nat \<Rightarrow> nat) \<Rightarrow> nat \<Rightarrow> nat \<Rightarrow> nat \<times> nat" where
  "randbelow rng cursor n = (rng cursor mod n, cursor + 1)"

definition randint :: "(nat \<Rightarrow> nat) \<Rightarrow> nat \<Rightarrow> int \<Rightarrow> int \<Rightarrow> int \<times> nat" where
  "randint rng cursor a b = (a + int (rng cursor mod nat (b - a + 1)), cursor + 1)"

fun shuffle_steps :: "(nat \<Rightarrow> nat) \<Rightarrow> nat \<Rightarrow> nat \<Rightarrow> nat list \<Rightarrow> nat list \<times> nat" where
  "shuffle_steps rng cursor 0 xs = (xs, cursor)"
| "shuffle_steps rng cursor (Suc k) xs =
     (let i = Suc k; j = rng cursor mod (i + 1)
      in shuffle_steps rng (cursor + 1) k (xs[i := xs ! j, j := xs ! i]))"

definition shuffle :: "(nat \<Rightarrow> nat) \<Rightarrow> nat \<Rightarrow> nat list \<Rightarrow> nat list \<times> nat" where
  "shuffle rng cursor xs = shuffle_steps rng cursor (length xs - 1) xs"

definition normalize_prompt :: "string \<Rightarrow> string" where
  "normalize_prompt text = collapse_ws (lower (strip text))"

definition rstrip :: "string \<Rightarrow> string" where
  "rstrip s = rev (dropWhile is_space (rev s))"

text \<open>
  \<open>compact_scenario\<close> removes a leading \<open>Example:\<close> label (in any letter case) and clips
  the text to 120 characters.
\<close>

definition compact_scenario :: "string \<Rightarrow> string" where
  "compact_scenario ex =
     (let s = strip ex;
          clean = (if startswith (lower s) ''example'' then
                     (case dropWhile is_space (drop 7 s) of
                        c # r \<Rightarrow> if c = CHR '':'' then dropWhile is_space r else s
                      | [] \<Rightarrow> s)
                   else s)
      in if length clean \<le> 120 then clean else rstrip (take 117 clean) @ ''...'')"

definition format_prompt :: "string \<Rightarrow> lesson \<Rightarrow> nat \<Rightarrow> string" where
  "format_prompt base_prompt lesson style_index =
     (let scenario = compact_scenario (example lesson) in
      if style_index = 0 then base_prompt
      else if style_index = 1 then ''[ar] Knowledge check: '' @ base_prompt
      else if style_index = 2 then ''[ar] Risk check first: '' @ base_prompt
      else if style_index = 3 then ''[ar] Execution check: '' @ base_prompt
      else if style_index = 4 then ''[ar] Process review: '' @ base_prompt
      else if style_index = 5 then ''[ar] Scenario focus: '' @ scenario @ '' '' @ base_prompt
      else ''[ar] Before executing the trade, answer: '' @ base_prompt)"

definition shuffle_options_with_order ::
  "(nat \<Rightarrow> nat) \<Rightarrow> nat \<Rightarrow> quiz_question \<Rightarrow> (quiz_question \<times> nat list) \<times> nat" where
  "shuffle_options_with_order rng cursor question =
     (let items = options question;
          (indices, cursor') = shuffle rng cursor [0..<length items];
          correct_text = (case map_of items (upper (answer question)) of
                            None \<Rightarrow> [] | Some t \<Rightarrow> t);
          pairs = zip OPTION_KEYS indices;
          remapped = map (\<lambda>(out_key, idx). (out_key, snd (items ! idx))) pairs;
          new_answer = foldl (\<lambda>acc (out_key, idx).
                                if snd (items ! idx) = correct_text then out_key else acc)
                             ''A'' pairs
      in ((\<lparr>prompt = prompt question, options = remapped, answer = new_answer,
             explanation = explanation question\<rparr>, indices), cursor'))"

definition signature_from_parts :: "string \<Rightarrow> string \<Rightarrow> nat \<Rightarrow> nat list \<Rightarrow> string" where
  "signature_from_parts lid base_prompt style_index option_order =
     lid @ ''|'' @ normalize_prompt base_prompt @ ''|s'' @ str_int (int style_index)
       @ ''|o'' @ join '','' (map (\<lambda>idx. str_int (int idx)) option_order)"

definition signature_from_question :: "string \<Rightarrow> quiz_question \<Rightarrow> string" where
  "signature_from_question lid question =
     lid @ ''|'' @ normalize_prompt (prompt question) @ ''|''
       @ join ''|'' (map (\<lambda>key. case map_of (options question) key of None \<Rightarrow> [] | Some t \<Rightarrow> t)
                         OPTION_KEYS)
       @ ''|'' @ answer question"

definition build_variant_question ::
  "(nat \<Rightarrow> nat) \<Rightarrow> nat \<Rightarrow> quiz_question \<Rightarrow> lesson \<Rightarrow> (quiz_question \<times> string) \<times> nat" where
  "build_variant_question rng cursor base lesson =
     (let (style_index, c1) = randbelow rng cursor 7;
          ((shuffled, option_order), c2) = shuffle_options_with_order rng c1 base
      in ((\<lparr>prompt = format_prompt (prompt base) lesson style_index,
             options = options shuffled, answer = answer shuffled,
             explanation = explanation base\<rparr>,
           signature_from_parts (lesson_id lesson) (prompt base) style_index option_order), c2))"

text \<open>
  The loop state of \<open>build_random_quiz_for_lesson\<close>. Each generated question is kept
  together with the signature it was built with, so that a property can speak of the
  signature of a returned question; the function returns the questions alone.
\<close>

record gen_state =
  generated :: "(quiz_question \<times> string) list"
  generated_signatures :: "string set"
  used_base_prompts :: "string set"
  attempts :: nat
  rng_pos :: nat

text \<open>One iteration of the first loop, which respects the history.\<close>

definition first_pass_step :: "lesson \<Rightarrow> string set \<Rightarrow> (nat \<Rightarrow> nat) \<Rightarrow> gen_state \<Rightarrow> gen_state" where
  "first_pass_step lesson history rng st =
     (let (k, c1) = randbelow rng (rng_pos st) (length (quiz lesson));
          base = quiz lesson ! k;
          base_key = normalize_prompt (prompt base)
      in if card (used_base_prompts st) < length (quiz lesson) \<and> base_key \<in> used_base_prompts st
         then st\<lparr>attempts := attempts st + 1, rng_pos := c1\<rparr>
         else
           let ((variant, signature), c2) = build_variant_question rng c1 base lesson in
           if signature \<in> history \<or> signature \<in> generated_signatures st
           then st\<lparr>attempts := attempts st + 1, rng_pos := c2\<rparr>
           else st\<lparr>generated := generated st @ [(variant, signature)],
                   generated_signatures := insert signature (generated_signatures st),
                   used_base_prompts := insert base_key (used_base_prompts st),
                   attempts := attempts st + 1, rng_pos := c2\<rparr>)"

function first_pass ::
  "lesson \<Rightarrow> string set \<Rightarrow> (nat \<Rightarrow> nat) \<Rightarrow> int \<Rightarrow> nat \<Rightarrow> gen_state \<Rightarrow> gen_state" where
  "first_pass lesson history rng target max_attempts st =
     (if int (length (generated st)) < target \<and> attempts st < max_attempts
      then first_pass lesson history rng target max_attempts (first_pass_step lesson history rng st)
      else st)"
  by pat_completeness auto
termination
  by (relation "measure (\<lambda>(lesson, history, rng, target, max_attempts, st). max_attempts - attempts st)")
     (auto simp: first_pass_step_def Let_def split: prod.splits)

text \<open>One iteration of the second loop, entered after the history has been cleared.\<close>

definition second_pass_step :: "lesson \<Rightarrow> (nat \<Rightarrow> nat) \<Rightarrow> gen_state \<Rightarrow> gen_state" where
  "second_pass_step lesson rng st =
     (let (k, c1) = randbelow rng (rng_pos st) (length (quiz lesson));
          base = quiz lesson ! k;
          ((variant, signature), c2) = build_variant_question rng c1 base lesson
      in if signature \<in> generated_signatures st
         then st\<lparr>attempts := attempts st + 1, rng_pos := c2\<rparr>
         else st\<lparr>generated := generated st @ [(variant, signature)],
                 generated_signatures := insert signature (generated_signatures st),
                 attempts := attempts st + 1, rng_pos := c2\<rparr>)"

function second_pass ::
  "lesson \<Rightarrow> (nat \<Rightarrow> nat) \<Rightarrow> int \<Rightarrow> nat \<Rightarrow> gen_state \<Rightarrow> gen_state" where
  "second_pass lesson rng target attempt_limit st =
     (if int (length (generated st)) < target \<and> attempts st < attempt_limit
      then second_pass lesson rng target attempt_limit (second_pass_step lesson rng st)
      else st)"
  by pat_completeness auto
termination
  by (relation "measure (\<lambda>(lesson, rng, target, attempt_limit, st). attempt_limit - attempts st)")
     (auto simp: second_pass_step_def Let_def split: prod.splits)

text \<open>The deterministic fallback: one shuffled variant per bank question.\<close>

fun shuffle_all ::
  "(nat \<Rightarrow> nat) \<Rightarrow> nat \<Rightarrow> string \<Rightarrow> quiz_question list \<Rightarrow> (quiz_question \<times> string) list" where
  "shuffle_all rng cursor lid [] = []"
| "shuffle_all rng cursor lid (question # rest) =
     (let ((shuffled, order), c1) = shuffle_options_with_order rng cursor question
      in (shuffled, signature_from_question lid shuffled) # shuffle_all rng c1 lid rest)"

text \<open>\<open>py_take n xs\<close> is the slice \<open>xs[:n]\<close>, where a negative \<open>n\<close> counts from the end.\<close>

definition py_take :: "int \<Rightarrow> 'a list \<Rightarrow> 'a list" where
  "py_take n xs = (if n \<ge> 0 then take (nat n) xs else take (length xs - nat (- n)) xs)"

text \<open>
  The body of \<open>build_random_quiz_for_lesson\<close>, with every returned question still paired
  with its signature. The history set lives in the session's dictionary, so clearing it
  and adding to it are updates of that entry.
\<close>

definition build_random_quiz_signed ::
  "lesson \<Rightarrow> user_session \<Rightarrow> int \<Rightarrow> int \<Rightarrow> (nat \<Rightarrow> nat)
     \<Rightarrow> (quiz_question \<times> string) list \<times> user_session" where
  "build_random_quiz_signed lesson session min_questions max_questions rng =
     (if quiz lesson = [] then ([], session)
      else
        let history = (case quiz_variant_history session (lesson_id lesson) of
                         None \<Rightarrow> {} | Some h \<Rightarrow> h);
            upper_bound = max min_questions (min max_questions 3);
            (target, c0) = randint rng 0 min_questions upper_bound;
            max_attempts = 300;
            st1 = first_pass lesson history rng target max_attempts
                    \<lparr>generated = [], generated_signatures = {}, used_base_prompts = {},
                     attempts = 0, rng_pos = c0\<rparr>;
            short = int (length (generated st1)) < target;
            history1 = (if short then {} else history);
            st2 = (if short then second_pass lesson rng target (max_attempts * 2) st1 else st1);
            fallback = shuffle_all rng (rng_pos st2) (lesson_id lesson) (quiz lesson);
            st3 = (if generated st2 = []
                   then st2\<lparr>generated := fallback, generated_signatures := set (map snd fallback)\<rparr>
                   else st2)
        in (py_take target (generated st3),
            session\<lparr>quiz_variant_history :=
                      (quiz_variant_history session)
                        (lesson_id lesson \<mapsto> history1 \<union> generated_signatures st3)\<rparr>))"

definition build_random_quiz_for_lesson ::
  "lesson \<Rightarrow> user_session \<Rightarrow> int \<Rightarrow> int \<Rightarrow> (nat \<Rightarrow> nat) \<Rightarrow> quiz_question list \<times> user_session" where
  "build_random_quiz_for_lesson lesson session min_questions max_questions rng =
     (let (signed, session') = build_random_quiz_signed lesson session min_questions max_questions rng
      in (map fst signed, session'))"

section \<open>Conversation handlers: sessions and replies\<close>

text \<open>
  The session repository maps a user identifier to that user's session. A handler mutates
  the session object held by the repository; the model writes the changed session back.
  \<open>get_session\<close> is \<open>_get_session\<close>: no session when the update has no user, otherwise the
  stored session (created on first access), with \<open>premium\<close> access downgraded.
\<close>

type_synonym session_store = "int \<Rightarrow> user_session option"

definition store_get :: "session_store \<Rightarrow> int \<Rightarrow> user_session \<times> session_store" where
  "store_get sessions uid =
     (case sessions uid of
        None \<Rightarrow> (new_session uid, sessions(uid \<mapsto> new_session uid))
      | Some s \<Rightarrow> (s, sessions))"

definition store_reset :: "session_store \<Rightarrow> int \<Rightarrow> user_session \<times> session_store" where
  "store_reset sessions uid = (new_session uid, sessions(uid \<mapsto> new_session uid))"

definition get_session :: "session_store \<Rightarrow> int option \<Rightarrow> user_session option \<times> session_store" where
  "get_session sessions user =
     (case user of
        None \<Rightarrow> (None, sessions)
      | Some uid \<Rightarrow>
          let (session, sessions') = store_get sessions uid;
              session' = (if access session = ''premium'' then session\<lparr>access := ''free''\<rparr>
                          else session)
          in (Some session', sessions'(uid \<mapsto> session')))"

text \<open>
  The texts a handler sends are rendered by the transport layer; a reply is modelled by
  the message it is, with the values the message is built from.
\<close>

datatype feedback_line =
    Header
  | DirectionLine string
  | EntryLine real
  | StopLossLine real
  | TakeProfitLine real
  | RewardRiskLine real
  | RiskPerTradeLine real
  | QualityPoor
  | QualityAcceptable
  | QualityStrong
  | RiskOversized
  | RiskConservative
  | StopAboveSupport
  | StopBelowResistance
  | ProcessReview
  | RiskReminder

datatype feedback = SimulationError | Evaluation "feedback_line list"

datatype challenge_feedback = AnalysisStrong | AnalysisAdequate | AnalysisTooGeneric

datatype reply =
    LessonAlreadyOpen
  | QuizStillActive
  | AiCurriculumFinished
  | LessonShown lesson
  | AiUnavailable string
  | AiUnavailableTemporarily
  | PremiumLocked
  | AdvancedIntroDone
  | AllLessonsDone
  | ProfessionalIsPremium
  | LevelUnlocked string
  | NoActiveSimulation
  | DirectionAlreadySet
  | ChooseLongOrShort
  | DirectionSet string real
  | ChooseDirection
  | StopLossNotNumeric
  | LongStopMustBeBelowEntry
  | ShortStopMustBeAboveEntry
  | AskTakeProfit
  | TakeProfitNotNumeric
  | LongTargetMustBeAboveEntry
  | ShortTargetMustBeBelowEntry
  | AskRiskPercent
  | RiskPercentUnrealistic
  | SimulationFeedback feedback
  | ChallengeTooShort
  | ChallengeFeedback challenge_feedback
  | AdminOnly
  | UsageSetAccess
  | InvalidAccess
  | PremiumIsLocked
  | AccessUpdated string
  | NothingToCancel
  | Cancelled "string list"
  | SessionReset

section \<open>Conversation handlers: access, reset and kill\<close>

definition set_access_value :: "user_session \<Rightarrow> string \<Rightarrow> user_session \<times> reply" where
  "set_access_value session requested =
     (if requested \<notin> {''free'', ''premium''} then (session, InvalidAccess)
      else if requested = ''premium'' then (session\<lparr>access := ''free''\<rparr>, PremiumIsLocked)
      else (session\<lparr>access := requested\<rparr>, AccessUpdated requested))"

definition setaccess_command ::
  "session_store \<Rightarrow> int option \<Rightarrow> bool \<Rightarrow> string list \<Rightarrow> session_store \<times> reply list" where
  "setaccess_command sessions user is_admin args =
     (case user of
        None \<Rightarrow> (sessions, [])
      | Some uid \<Rightarrow>
          (case get_session sessions user of
             (None, sessions') \<Rightarrow> (sessions', [])
           | (Some session, sessions') \<Rightarrow>
               if \<not> is_admin then (sessions', [AdminOnly])
               else if args = [] then (sessions', [UsageSetAccess])
               else
                 let (session', r) = set_access_value session (strip (lower (hd args)))
                 in (sessions'(uid \<mapsto> session'), [r])))"

definition reset_command :: "session_store \<Rightarrow> int option \<Rightarrow> session_store \<times> reply list" where
  "reset_command sessions user =
     (case user of
        None \<Rightarrow> (sessions, [])
      | Some uid \<Rightarrow> (snd (store_reset sessions uid), [SessionReset]))"

definition kill_active_states :: "user_session \<Rightarrow> user_session \<times> string list" where
  "kill_active_states session =
     (let k1 = (if pending_lesson session \<noteq> None then [''lesson''] else []);
          k2 = (if quiz_state session \<noteq> None then [''quiz''] else []);
          k3 = (if simulation_state session \<noteq> None then [''simulation''] else []);
          k4 = (if daily_challenge_state session \<noteq> None then [''daily challenge''] else []);
          k5 = (if assistant_mode session then [''AI assistant''] else [])
      in (session\<lparr>pending_lesson := None, quiz_state := None, simulation_state := None,
                  daily_challenge_state := None, assistant_mode := False\<rparr>,
          k1 @ k2 @ k3 @ k4 @ k5))"

definition kill_command :: "session_store \<Rightarrow> int option \<Rightarrow> session_store \<times> reply list" where
  "kill_command sessions user =
     (case user of
        None \<Rightarrow> (sessions, [])
      | Some uid \<Rightarrow>
          (case get_session sessions user of
             (None, sessions') \<Rightarrow> (sessions', [])
           | (Some session, sessions') \<Rightarrow>
               let (session', killed) = kill_active_states session
               in (sessions'(uid \<mapsto> session'),
                   [if killed = [] then NothingToCancel else Cancelled killed])))"

section \<open>Conversation handlers: lessons\<close>

text \<open>
  The curated content bank (module \<open>content\<close>) is not part of the sources at hand; the
  two functions of it that \<open>lesson_command\<close> calls are parameters of the model.
\<close>

record content =
  lessons_for_user :: "string \<Rightarrow> string \<Rightarrow> lesson list"
  next_level :: "string \<Rightarrow> string option"

definition AI_TOTAL_LESSONS :: int where
  "AI_TOTAL_LESSONS = 100"

definition sync_ai_curriculum_level :: "user_session \<Rightarrow> user_session" where
  "sync_ai_curriculum_level session =
     (if ai_lessons_completed session \<ge> 75 then session\<lparr>level := ''professional''\<rparr>
      else if ai_lessons_completed session \<ge> 50 then session\<lparr>level := ''advanced''\<rparr>
      else if ai_lessons_completed session \<ge> 25 then session\<lparr>level := ''intermediate''\<rparr>
      else session\<lparr>level := ''beginner''\<rparr>)"

definition remember_ai_lesson_title :: "user_session \<Rightarrow> lesson \<Rightarrow> user_session" where
  "remember_ai_lesson_title session l =
     (let titles = ai_recent_lesson_titles session @ [title l]
      in session\<lparr>ai_recent_lesson_titles := drop (length titles - 30) titles\<rparr>)"

text \<open>The tail of \<open>lesson_command\<close>: the next lesson of the built-in curriculum.\<close>

definition builtin_lesson :: "content \<Rightarrow> user_session \<Rightarrow> user_session \<times> reply list" where
  "builtin_lesson bank session =
     (let available_lessons = lessons_for_user bank (level session) (access session) in
      if available_lessons = [] then (session, [PremiumLocked])
      else
        case List.find (\<lambda>l. lesson_id l \<notin> completed_lessons session) available_lessons of
          Some next_lesson \<Rightarrow>
            (session\<lparr>pending_lesson := Some next_lesson\<rparr>, [LessonShown next_lesson])
        | None \<Rightarrow>
            let next_lvl = next_level bank (level session) in
            if level session = ''advanced'' \<and> access session = ''free''
              then (session, [AdvancedIntroDone])
            else if next_lvl = None then (session, [AllLessonsDone])
            else if next_lvl = Some ''professional'' \<and> access session = ''free''
              then (session, [ProfessionalIsPremium])
            else (session\<lparr>level := the next_lvl\<rparr>, [LevelUnlocked (the next_lvl)]))"

text \<open>
  \<open>lesson_command\<close> on the session that \<open>_get_session\<close> returned. The configured gateway
  client, if any, is \<open>ai\<close>, and \<open>ex\<close> is the exchange its request would meet. The result is
  the session, the client, the replies sent and the exception that ended the handler, if
  one did.
\<close>

definition lesson_command_body ::
  "pylib \<Rightarrow> content \<Rightarrow> string \<Rightarrow> client option \<Rightarrow> exchange \<Rightarrow> user_session
     \<Rightarrow> user_session \<times> client option \<times> reply list \<times> py_error option" where
  "lesson_command_body lib bank fresh_id ai ex session0 =
     (let session = sync_ai_curriculum_level (session0\<lparr>assistant_mode := False\<rparr>) in
      if pending_lesson session \<noteq> None then (session, ai, [LessonAlreadyOpen], None)
      else if quiz_state session \<noteq> None then (session, ai, [QuizStillActive], None)
      else
        case ai of
          None \<Rightarrow> (let (session', rs) = builtin_lesson bank session in (session', ai, rs, None))
        | Some ai_client \<Rightarrow>
            if ai_lessons_completed session \<ge> AI_TOTAL_LESSONS
              then (session, ai, [AiCurriculumFinished], None)
            else
              case generate_lesson lib ai_client fresh_id (level session)
                     (lang_of (language session)) ex of
                (Inl e, ai_client', posted) \<Rightarrow> (session, Some ai_client', [], Some e)
              | (Inr (Some ai_lesson), ai_client', posted) \<Rightarrow>
                  ((remember_ai_lesson_title session ai_lesson)\<lparr>pending_lesson := Some ai_lesson\<rparr>,
                   Some ai_client', [LessonShown ai_lesson], None)
              | (Inr None, ai_client', posted) \<Rightarrow>
                  let error_code = strip (last_error ai_client');
                      note = (if error_code \<noteq> [] then AiUnavailable error_code
                              else AiUnavailableTemporarily);
                      (session', rs) = builtin_lesson bank session
                  in (session', Some ai_client', note # rs, None))"

definition lesson_command ::
  "pylib \<Rightarrow> content \<Rightarrow> string \<Rightarrow> client option \<Rightarrow> exchange \<Rightarrow> session_store \<Rightarrow> int option
     \<Rightarrow> session_store \<times> client option \<times> reply list \<times> py_error option" where
  "lesson_command lib bank fresh_id ai ex sessions user =
     (case user of
        None \<Rightarrow> (sessions, ai, [], None)
      | Some uid \<Rightarrow>
          (case get_session sessions user of
             (None, sessions') \<Rightarrow> (sessions', ai, [], None)
           | (Some session, sessions') \<Rightarrow>
               let (session', ai', rs, raised) = lesson_command_body lib bank fresh_id ai ex session
               in (sessions'(uid \<mapsto> session'), ai', rs, raised)))"

section \<open>Simulation scoring engine\<close>

text \<open>
  \<open>extract_number\<close> removes the commas, finds the leftmost match of the pattern
  \<open>-?\d+(?:\.\d+)?\<close> and converts it with \<open>float\<close>. Prices and percentages, Python floats
  in the source, are modelled as real numbers.
\<close>

definition unsigned_match :: "string \<Rightarrow> string" where
  "unsigned_match s =
     (let whole = takeWhile is_digit s in
      case dropWhile is_digit s of
        c # f \<Rightarrow> if c = CHR ''.'' \<and> f \<noteq> [] \<and> is_digit (hd f)
                 then whole @ ''.'' @ takeWhile is_digit f else whole
      | [] \<Rightarrow> whole)"

definition match_number :: "string \<Rightarrow> string option" where
  "match_number s =
     (case s of
        [] \<Rightarrow> None
      | c # r \<Rightarrow>
          if c = CHR ''-'' then
            (if r \<noteq> [] \<and> is_digit (hd r) then Some (c # unsigned_match r) else None)
          else if is_digit c then Some (unsigned_match s)
          else None)"

fun search_number :: "string \<Rightarrow> string option" where
  "search_number [] = None"
| "search_number (c # cs) =
     (case match_number (c # cs) of Some m \<Rightarrow> Some m | None \<Rightarrow> search_number cs)"

definition digits_value :: "string \<Rightarrow> nat" where
  "digits_value ds = foldl (\<lambda>a c. 10 * a + (of_char c - 48)) 0 ds"

definition float_of_match :: "string \<Rightarrow> real" where
  "float_of_match m =
     (let negative = (m \<noteq> [] \<and> hd m = CHR ''-'');
          body = (if negative then tl m else m);
          whole = takeWhile is_digit body;
          frac = drop 1 (dropWhile is_digit body);
          magnitude = real (digits_value whole) + real (digits_value frac) / 10 ^ length frac
      in if negative then - magnitude else magnitude)"

definition extract_number :: "string \<Rightarrow> real option" where
  "extract_number text =
     (let cleaned = filter (\<lambda>c. c \<noteq> CHR '','') text in
      map_option float_of_match (search_number cleaned))"

definition build_simulation_feedback :: "simulation_state \<Rightarrow> real \<Rightarrow> feedback" where
  "build_simulation_feedback state risk_percent =
     (case (stop_loss state, take_profit state, direction state) of
        (Some sl, Some tp, Some dir) \<Rightarrow>
          let risk_distance = \<bar>entry state - sl\<bar>;
              reward_distance = \<bar>tp - entry state\<bar>;
              rr = (if risk_distance \<noteq> 0 then reward_distance / risk_distance else 0);
              direction_label = (if dir = ''long'' then ''[ar] long'' else ''[ar] short'')
          in Evaluation
               ([Header, DirectionLine direction_label, EntryLine (entry state), StopLossLine sl,
                 TakeProfitLine tp, RewardRiskLine rr, RiskPerTradeLine risk_percent]
                @ [if rr < 1.5 then QualityPoor
                   else if rr < 2.0 then QualityAcceptable
                   else QualityStrong]
                @ [if risk_percent > 2.0 then RiskOversized else RiskConservative]
                @ (if dir = ''long'' \<and> sl > support state then [StopAboveSupport] else [])
                @ (if dir = ''short'' \<and> sl < resistance state then [StopBelowResistance] else [])
                @ [ProcessReview, RiskReminder])
      | _ \<Rightarrow> SimulationError)"

definition set_simulation_direction :: "user_session \<Rightarrow> string \<Rightarrow> user_session \<times> reply list" where
  "set_simulation_direction session dir =
     (case simulation_state session of
        None \<Rightarrow> (session, [NoActiveSimulation])
      | Some state \<Rightarrow>
          if stage state \<noteq> ''direction'' then (session, [DirectionAlreadySet])
          else if dir \<notin> {''long'', ''short''} then (session, [ChooseLongOrShort])
          else
            (session\<lparr>simulation_state :=
                       Some (state\<lparr>direction := Some dir, stage := ''stop_loss''\<rparr>)\<rparr>,
             [DirectionSet (if dir = ''long'' then ''[ar] long'' else ''[ar] short'') (entry state)]))"

definition handle_simulation_answer :: "user_session \<Rightarrow> string \<Rightarrow> user_session \<times> reply list" where
  "handle_simulation_answer session text =
     (case simulation_state session of
        None \<Rightarrow> (session, [])
      | Some state \<Rightarrow>
          let lowered = strip (lower text) in
          if stage state = ''direction'' then
            (if contains lowered ''long'' then set_simulation_direction session ''long''
             else if contains lowered ''short'' then set_simulation_direction session ''short''
             else (session, [ChooseDirection]))
          else if stage state = ''stop_loss'' then
            (case extract_number text of
               None \<Rightarrow> (session, [StopLossNotNumeric])
             | Some v \<Rightarrow>
                 if direction state = Some ''long'' \<and> v \<ge> entry state
                   then (session, [LongStopMustBeBelowEntry])
                 else if direction state = Some ''short'' \<and> v \<le> entry state
                   then (session, [ShortStopMustBeAboveEntry])
                 else (session\<lparr>simulation_state :=
                                  Some (state\<lparr>stop_loss := Some v, stage := ''take_profit''\<rparr>)\<rparr>,
                       [AskTakeProfit]))
          else if stage state = ''take_profit'' then
            (case extract_number text of
               None \<Rightarrow> (session, [TakeProfitNotNumeric])
             | Some v \<Rightarrow>
                 if direction state = Some ''long'' \<and> v \<le> entry state
                   then (session, [LongTargetMustBeAboveEntry])
                 else if direction state = Some ''short'' \<and> v \<ge> entry state
                   then (session, [ShortTargetMustBeBelowEntry])
                 else (session\<lparr>simulation_state :=
                                  Some (state\<lparr>take_profit := Some v, stage := ''risk_percent''\<rparr>)\<rparr>,
                       [AskRiskPercent]))
          else if stage state = ''risk_percent'' then
            (case extract_number text of
               None \<Rightarrow> (session, [RiskPercentUnrealistic])
             | Some risk_percent \<Rightarrow>
                 if risk_percent \<le> 0 \<or> risk_percent > 100
                   then (session, [RiskPercentUnrealistic])
                 else
                   (session\<lparr>ai_simulations_completed := ai_simulations_completed session + 1,
                            simulation_state := None\<rparr>,
                    [SimulationFeedback (build_simulation_feedback state risk_percent)]))
          else (session, []))"

section \<open>Daily challenge\<close>

text \<open>\<open>py_split\<close> is \<open>str.split()\<close>: the maximal runs of characters that are not whitespace.\<close>

fun split_from :: "string \<Rightarrow> string \<Rightarrow> string list" where
  "split_from word [] = (if word = [] then [] else [word])"
| "split_from word (c # cs) =
     (if is_space c then (if word = [] then split_from [] cs else word # split_from [] cs)
      else split_from (word @ [c]) cs)"

definition py_split :: "string \<Rightarrow> string list" where
  "py_split s = split_from [] s"

definition handle_daily_challenge_answer ::
  "user_session \<Rightarrow> string \<Rightarrow> user_session \<times> reply list" where
  "handle_daily_challenge_answer session text =
     (case daily_challenge_state session of
        None \<Rightarrow> (session, [])
      | Some challenge \<Rightarrow>
          let word_count = length (py_split text) in
          if word_count < 8 then (session, [ChallengeTooShort])
          else
            let lowered = lower text;
                hit_count = length (filter (\<lambda>keyword. contains lowered keyword)
                                           (expected_keywords challenge));
                fb = (if hit_count \<ge> 3 then AnalysisStrong
                      else if hit_count = 2 then AnalysisAdequate
                      else AnalysisTooGeneric)
            in (session\<lparr>ai_challenges_completed := ai_challenges_completed session + 1,
                        daily_challenge_state := None\<rparr>,
                [ChallengeFeedback fb]))"

section \<open>Reachable session repositories\<close>

text \<open>
  The repositories the public event interface can produce. Every handler but
  \<open>reset_command\<close> obtains its session with \<open>_get_session\<close>. The fields a handler then
  writes differ from handler to handler, but \<open>access\<close> is assigned in two places only,
  \<open>_get_session\<close> and \<open>_set_access_value\<close>; rule \<open>handled\<close> stands for every other handler:
  it retrieves the session and stores a session with the same access.
\<close>

inductive reachable :: "session_store \<Rightarrow> bool" where
  started: "reachable Map.empty"
| retrieved: "reachable sessions \<Longrightarrow> reachable (snd (get_session sessions user))"
| reset: "reachable sessions \<Longrightarrow> reachable (fst (reset_command sessions user))"
| access_set:
    "reachable sessions \<Longrightarrow> reachable (fst (setaccess_command sessions user is_admin args))"
| handled:
    "reachable sessions \<Longrightarrow> get_session sessions (Some uid) = (Some session, sessions')
       \<Longrightarrow> access session' = access session \<Longrightarrow> reachable (sessions'(uid \<mapsto> session'))"

definition all_free :: "session_store \<Rightarrow> bool" where
  "all_free sessions = (\<forall>uid s. sessions uid = Some s \<longrightarrow> access s = ''free'')"

section \<open>Example inputs\<close>


text \<open>A long wizard waiting for its stop-loss.\<close>

definition stop_loss_stage :: simulation_state where
  "stop_loss_stage =
     \<lparr>symbol = ''BTCDZD'', entry = 100, support = 96, resistance = 112, sim_context = [],
      stage = ''stop_loss'', direction = Some ''long'', stop_loss = None, take_profit = None\<rparr>"

text \<open>
  A generated daily challenge whose keywords carry capital letters, as the gateway's
  normalisation leaves them, and a reply of eleven words that uses all four.
\<close>

definition shouted_challenge :: daily_challenge_state where
  "shouted_challenge =
     \<lparr>dc_prompt = ''Daily Challenge: read the BTC chart'',
      expected_keywords = [''RSI'', ''Stop'', ''Risk'', ''Trend'']\<rparr>"

definition shouted_reply :: string where
  "shouted_reply = ''RSI is high so Risk is small with Stop under Trend''"

section \<open>Properties of the string primitives\<close>

lemma set_strip_subset: "set (strip s) \<subseteq> set s"
proof -
  have "set (strip s) \<subseteq> set (dropWhile is_space s)"
    unfolding strip_def using set_dropWhileD by fastforce
  also have "\<dots> \<subseteq> set s"
    using set_dropWhileD by fastforce
  finally show ?thesis .
qed

lemma find_from_absent: "c \<notin> set s \<Longrightarrow> find_from i s c = -1"
  by (induction s arbitrary: i) auto

lemma rfind_from_absent: "c \<notin> set s \<Longrightarrow> rfind_from best i s c = best"
  by (induction s arbitrary: i best) auto

lemma py_find_absent: "c \<notin> set s \<Longrightarrow> py_find s c = -1"
  by (simp add: py_find_def find_from_absent)

lemma py_rfind_absent: "c \<notin> set s \<Longrightarrow> py_rfind s c = -1"
  by (simp add: py_rfind_def rfind_from_absent)

lemma startswith_char_mem: "startswith s [c] \<Longrightarrow> c \<in> set s"
  by (cases s) (auto simp: startswith_def)

lemma py_find_hd: "py_find (c # s) c = 0"
  by (simp add: py_find_def)

lemma rfind_from_last:
  "s \<noteq> [] \<Longrightarrow> last s = c \<Longrightarrow> rfind_from best i s c = int i + int (length s) - 1"
proof (induction s arbitrary: best i)
  case Nil
  then show ?case by simp
next
  case (Cons x s)
  show ?case
  proof (cases "s = []")
    case True
    with Cons.prems show ?thesis by simp
  next
    case False
    with Cons.prems have "last s = c" by simp
    from Cons.IH[OF False this] show ?thesis by simp
  qed
qed

lemma py_rfind_last: "s \<noteq> [] \<Longrightarrow> last s = c \<Longrightarrow> py_rfind s c = int (length s) - 1"
  by (simp add: py_rfind_def rfind_from_last)

lemma endswith_char_last:
  assumes "endswith s [c]"
  shows "s \<noteq> [] \<and> last s = c"
proof -
  from assms have ne: "s \<noteq> []"
    by (auto simp: endswith_def)
  from assms have "drop (length s - 1) s = [c]"
    by (simp add: endswith_def)
  moreover have "drop (length s - 1) s = [last s]"
    using ne by (metis append_butlast_last_id append_eq_conv_conj length_butlast)
  ultimately show ?thesis
    using ne by simp
qed

section \<open>JSON block extraction\<close>

text \<open>
  On a text without braces the two brace rules never apply, and the result is decided by
  the square brackets alone.
\<close>

lemma extract_json_block_brace_free:
  assumes "CHR ''{'' \<notin> set text" and "CHR ''}'' \<notin> set text"
  shows "extract_json_block text =
     (let s = strip text; a = py_find s (CHR ''[''); b = py_rfind s (CHR '']'') in
      if a \<noteq> -1 \<and> b \<noteq> -1 \<and> b > a then slice s a (b + 1) else ''{}'')"
proof -
  let ?s = "strip text"
  have nb: "CHR ''{'' \<notin> set ?s" "CHR ''}'' \<notin> set ?s"
    using assms set_strip_subset by blast+
  have a: "\<not> startswith ?s ''{''"
    using nb startswith_char_mem by blast
  have f: "py_find ?s (CHR ''{'') = -1"
    using nb by (simp add: py_find_absent)
  show ?thesis
  proof (cases "startswith ?s ''['' \<and> endswith ?s '']''")
    case True
    then obtain r where r: "?s = CHR ''['' # r"
      by (cases ?s) (auto simp: startswith_def)
    from True have l: "?s \<noteq> []" "last ?s = CHR '']''"
      using endswith_char_last by blast+
    have fa: "py_find ?s (CHR ''['') = 0"
      using r by (simp add: py_find_hd)
    have fb: "py_rfind ?s (CHR '']'') = int (length ?s) - 1"
      using l by (rule py_rfind_last)
    have "r \<noteq> []"
      using r l by auto
    then have len: "int (length ?s) - 1 > 0"
      using r by (cases r) auto
    have "slice ?s 0 (int (length ?s) - 1 + 1) = ?s"
      by (simp add: slice_def)
    then show ?thesis
      using True a fa fb len l(1) by (simp add: extract_json_block_def Let_def)
  next
    case False
    then show ?thesis
      using a f unfolding extract_json_block_def Let_def by auto
  qed
qed

text \<open>
  C9, as stated, fails: the text \<open>[1]\<close> contains no braces, and the extractor returns it
  unchanged, not \<open>{}\<close>.
\<close>

theorem extract_json_block_counterexample:
  "CHR ''{'' \<notin> set ''[1]'' \<and> CHR ''}'' \<notin> set ''[1]'' \<and> extract_json_block ''[1]'' = ''[1]''
   \<and> extract_json_block ''[1]'' \<noteq> ''{}''"
  by (simp add: extract_json_block_def strip_def is_space_def startswith_def endswith_def)

text \<open>
  C9, amended: on the input \<open>noise {"a":1} trailing\<close> the extractor returns \<open>{"a":1}\<close>; on
  every input containing no braces it returns the span of the trimmed text from its first
  \<open>[\<close> to its last \<open>]\<close> when the first \<open>[\<close> comes before the last \<open>]\<close>, and \<open>{}\<close>
  otherwise; in particular it returns \<open>{}\<close> when the input has no braces and no \<open>[\<close>.
\<close>

theorem extract_json_block_forgiving:
  "extract_json_block (''noise {'' @ [CHR 0x22] @ ''a'' @ [CHR 0x22] @ '':1} trailing'')
     = ''{'' @ [CHR 0x22] @ ''a'' @ [CHR 0x22] @ '':1}''
   \<and> (\<forall>text. CHR ''{'' \<notin> set text \<and> CHR ''}'' \<notin> set text \<longrightarrow>
         extract_json_block text =
           (let s = strip text; a = py_find s (CHR ''[''); b = py_rfind s (CHR '']'') in
            if a \<noteq> -1 \<and> b \<noteq> -1 \<and> b > a then slice s a (b + 1) else ''{}''))
   \<and> (\<forall>text. CHR ''{'' \<notin> set text \<and> CHR ''}'' \<notin> set text \<and> CHR ''['' \<notin> set text \<longrightarrow>
         extract_json_block text = ''{}'')"
proof (intro conjI allI impI)
  show "extract_json_block (''noise {'' @ [CHR 0x22] @ ''a'' @ [CHR 0x22] @ '':1} trailing'')
          = ''{'' @ [CHR 0x22] @ ''a'' @ [CHR 0x22] @ '':1}''"
    by (simp add: extract_json_block_def strip_def is_space_def startswith_def endswith_def
        py_find_def py_rfind_def slice_def)
next
  fix t
  assume "CHR ''{'' \<notin> set t \<and> CHR ''}'' \<notin> set t"
  then show "extract_json_block t =
      (let s = strip t; a = py_find s (CHR ''[''); b = py_rfind s (CHR '']'') in
       if a \<noteq> -1 \<and> b \<noteq> -1 \<and> b > a then slice s a (b + 1) else ''{}'')"
    using extract_json_block_brace_free by blast
next
  fix t
  assume h: "CHR ''{'' \<notin> set t \<and> CHR ''}'' \<notin> set t \<and> CHR ''['' \<notin> set t"
  then have "CHR ''['' \<notin> set (strip t)"
    using set_strip_subset by blast
  then have "py_find (strip t) (CHR ''['') = -1"
    by (rule py_find_absent)
  then show "extract_json_block t = ''{}''"
    using h extract_json_block_brace_free[of t] by (simp add: Let_def)
qed

theorem extract_json_block_forgiving_witness:
  "CHR ''{'' \<notin> set ''plain text'' \<and> CHR ''}'' \<notin> set ''plain text''
   \<and> CHR ''['' \<notin> set ''plain text'' \<and> extract_json_block ''plain text'' = ''{}''
   \<and> CHR ''{'' \<notin> set ''x [1] y'' \<and> CHR ''}'' \<notin> set ''x [1] y''
   \<and> extract_json_block ''x [1] y'' = ''[1]''"
proof -
  have a: "CHR ''{'' \<notin> set ''plain text'' \<and> CHR ''}'' \<notin> set ''plain text''
           \<and> CHR ''['' \<notin> set ''plain text''"
    by simp
  have b: "CHR ''{'' \<notin> set ''x [1] y'' \<and> CHR ''}'' \<notin> set ''x [1] y''"
    by simp
  from extract_json_block_forgiving a have "extract_json_block ''plain text'' = ''{}''"
    by blast
  moreover from extract_json_block_forgiving b have "extract_json_block ''x [1] y'' =
      (let s = strip ''x [1] y''; a = py_find s (CHR ''[''); b = py_rfind s (CHR '']'') in
       if a \<noteq> -1 \<and> b \<noteq> -1 \<and> b > a then slice s a (b + 1) else ''{}'')"
    by blast
  then have "extract_json_block ''x [1] y'' = ''[1]''"
    by (simp add: strip_def is_space_def py_find_def py_rfind_def slice_def)
  ultimately show ?thesis
    using a b by simp
qed

section \<open>Simulation scoring\<close>




section \<open>Simulation wizard: rejected inputs\<close>

text \<open>
  C7: at every stage of the wizard a rejected input leaves the session, and with it the
  simulation state, unchanged and is answered by that stage's own prompt: a reply naming
  no direction; a text without a number; a stop-loss that is not strictly below the entry
  for long or not strictly above it for short; a take-profit that is not strictly above
  the entry for long or not strictly below it for short; a risk percent outside
  \<open>(0, 100]\<close>.
\<close>

theorem simulation_rejected_input_keeps_state:
  assumes "simulation_state session = Some st"
  shows "(stage st = ''direction'' \<and> \<not> contains (strip (lower text)) ''long''
            \<and> \<not> contains (strip (lower text)) ''short''
          \<longrightarrow> handle_simulation_answer session text = (session, [ChooseDirection]))
    \<and> (stage st = ''stop_loss'' \<and> extract_number text = None
          \<longrightarrow> handle_simulation_answer session text = (session, [StopLossNotNumeric]))
    \<and> (stage st = ''stop_loss'' \<and> extract_number text = Some v
            \<and> direction st = Some ''long'' \<and> \<not> v < entry st
          \<longrightarrow> handle_simulation_answer session text = (session, [LongStopMustBeBelowEntry]))
    \<and> (stage st = ''stop_loss'' \<and> extract_number text = Some v
            \<and> direction st = Some ''short'' \<and> \<not> v > entry st
          \<longrightarrow> handle_simulation_answer session text = (session, [ShortStopMustBeAboveEntry]))
    \<and> (stage st = ''take_profit'' \<and> extract_number text = None
          \<longrightarrow> handle_simulation_answer session text = (session, [TakeProfitNotNumeric]))
    \<and> (stage st = ''take_profit'' \<and> extract_number text = Some v
            \<and> direction st = Some ''long'' \<and> \<not> v > entry st
          \<longrightarrow> handle_simulation_answer session text = (session, [LongTargetMustBeAboveEntry]))
    \<and> (stage st = ''take_profit'' \<and> extract_number text = Some v
            \<and> direction st = Some ''short'' \<and> \<not> v < entry st
          \<longrightarrow> handle_simulation_answer session text = (session, [ShortTargetMustBeBelowEntry]))
    \<and> (stage st = ''risk_percent'' \<and> extract_number text = None
          \<longrightarrow> handle_simulation_answer session text = (session, [RiskPercentUnrealistic]))
    \<and> (stage st = ''risk_percent'' \<and> extract_number text = Some v \<and> \<not> (0 < v \<and> v \<le> 100)
          \<longrightarrow> handle_simulation_answer session text = (session, [RiskPercentUnrealistic]))"
  using assms by (auto simp: handle_simulation_answer_def Let_def)

lemma extract_number_105: "extract_number ''105'' = Some 105"
  by (simp add: extract_number_def match_number_def unsigned_match_def is_digit_def
      float_of_match_def digits_value_def)

lemma extract_number_abc: "extract_number ''abc'' = None"
  by (simp add: extract_number_def match_number_def is_digit_def)

theorem simulation_rejected_input_keeps_state_witness:
  "handle_simulation_answer ((new_session 1)\<lparr>simulation_state := Some stop_loss_stage\<rparr>) ''105''
     = ((new_session 1)\<lparr>simulation_state := Some stop_loss_stage\<rparr>, [LongStopMustBeBelowEntry])
   \<and> handle_simulation_answer ((new_session 1)\<lparr>simulation_state := Some stop_loss_stage\<rparr>) ''abc''
     = ((new_session 1)\<lparr>simulation_state := Some stop_loss_stage\<rparr>, [StopLossNotNumeric])"
proof -
  let ?s = "(new_session 1)\<lparr>simulation_state := Some stop_loss_stage\<rparr>"
  have s: "simulation_state ?s = Some stop_loss_stage"
    by simp
  have st: "stage stop_loss_stage = ''stop_loss''" "direction stop_loss_stage = Some ''long''"
    "\<not> (105::real) < entry stop_loss_stage"
    by (simp_all add: stop_loss_stage_def)
  from simulation_rejected_input_keeps_state[OF s, of "''105''" 105] st extract_number_105
  have a: "handle_simulation_answer ?s ''105'' = (?s, [LongStopMustBeBelowEntry])"
    by blast
  from simulation_rejected_input_keeps_state[OF s, of "''abc''"] st extract_number_abc
  have b: "handle_simulation_answer ?s ''abc'' = (?s, [StopLossNotNumeric])"
    by blast
  from a b show ?thesis
    by simp
qed

section \<open>Daily challenge evaluation\<close>

text \<open>
  A reply of at least eight words is always scored and always clears the challenge: three
  or more hits are strong, exactly two adequate, anything else too generic. A hit is a
  keyword that occurs, as it is written, in the lower-cased reply.
\<close>

lemma daily_challenge_answer_scored:
  assumes "daily_challenge_state session = Some ch" and "length (py_split text) \<ge> 8"
  shows "handle_daily_challenge_answer session text =
     (session\<lparr>ai_challenges_completed := ai_challenges_completed session + 1,
              daily_challenge_state := None\<rparr>,
      [ChallengeFeedback
         (let hit_count = length (filter (contains (lower text)) (expected_keywords ch)) in
          if hit_count \<ge> 3 then AnalysisStrong
          else if hit_count = 2 then AnalysisAdequate else AnalysisTooGeneric)])"
  using assms by (simp add: handle_daily_challenge_answer_def Let_def)

text \<open>
  C8 at the challenge \<open>shouted_challenge\<close>: the reply has eleven words and contains each of
  the four keywords when letter case is ignored, which the claim rates strong; the
  evaluator lower-cases the reply but not the keywords, counts no hit and answers that
  the reply is too generic.
\<close>

theorem daily_challenge_keyword_case:
  "length (py_split shouted_reply) \<ge> 8
   \<and> length (filter (\<lambda>keyword. contains (lower shouted_reply) (lower keyword))
               (expected_keywords shouted_challenge)) = 4
   \<and> handle_daily_challenge_answer
        ((new_session 1)\<lparr>daily_challenge_state := Some shouted_challenge\<rparr>) shouted_reply
      = ((new_session 1)\<lparr>ai_challenges_completed := 1, daily_challenge_state := None\<rparr>,
         [ChallengeFeedback AnalysisTooGeneric])"
proof -
  have l: "lower shouted_reply = ''rsi is high so risk is small with stop under trend''"
    by code_simp
  have k: "map lower (expected_keywords shouted_challenge) = [''rsi'', ''stop'', ''risk'', ''trend'']"
    by code_simp
  have w: "length (py_split shouted_reply) = 11"
    by (simp add: shouted_reply_def py_split_def is_space_def)
  have c: "length (filter (\<lambda>keyword. contains (lower shouted_reply) (lower keyword))
               (expected_keywords shouted_challenge)) = 4"
    using k unfolding l by (simp add: shouted_challenge_def startswith_def)
  have h: "filter (contains (lower shouted_reply)) (expected_keywords shouted_challenge) = []"
    unfolding l by (simp add: shouted_challenge_def startswith_def)
  show ?thesis
    using w c h
    by (simp add: handle_daily_challenge_answer_def Let_def new_session_def)
qed

section \<open>Access is always free\<close>

lemma get_session_cases:
  "get_session sessions (Some uid) =
     (Some (let s = (case sessions uid of None \<Rightarrow> new_session uid | Some s \<Rightarrow> s)
            in if access s = ''premium'' then s\<lparr>access := ''free''\<rparr> else s),
      sessions(uid \<mapsto> (let s = (case sessions uid of None \<Rightarrow> new_session uid | Some s \<Rightarrow> s)
            in if access s = ''premium'' then s\<lparr>access := ''free''\<rparr> else s)))"
  by (auto simp: get_session_def store_get_def Let_def split: option.splits)

lemma get_session_not_premium:
  "get_session sessions user = (Some s, sessions') \<Longrightarrow> access s \<noteq> ''premium''"
  by (cases user) (auto simp: get_session_def store_get_def Let_def split: option.splits if_splits)

lemma get_session_all_free:
  assumes "all_free sessions"
  shows "all_free (snd (get_session sessions user))"
proof (cases user)
  case None
  then show ?thesis using assms by (simp add: get_session_def)
next
  case (Some uid)
  show ?thesis
    unfolding Some get_session_cases using assms
    by (auto simp: all_free_def new_session_def Let_def split: option.splits)
qed

lemma get_session_free:
  assumes "all_free sessions" and "get_session sessions user = (Some s, sessions')"
  shows "access s = ''free''"
proof -
  from assms(2) obtain uid where u: "user = Some uid"
    by (cases user) (auto simp: get_session_def)
  have "all_free sessions'" using get_session_all_free[OF assms(1), of user] assms(2) by simp
  moreover have "sessions' uid = Some s"
    using assms(2) unfolding u get_session_cases by auto
  ultimately show ?thesis by (auto simp: all_free_def)
qed

lemma set_access_value_free:
  "access (fst (set_access_value s requested)) =
     (if requested \<in> {''free'', ''premium''} then ''free'' else access s)"
  by (auto simp: set_access_value_def)

lemma setaccess_all_free:
  assumes "all_free sessions"
  shows "all_free (fst (setaccess_command sessions user is_admin args))"
proof (cases user)
  case None
  then show ?thesis using assms by (simp add: setaccess_command_def)
next
  case (Some uid)
  obtain s sessions' where g: "get_session sessions (Some uid) = (Some s, sessions')"
    by (simp add: get_session_cases)
  have f: "all_free sessions'" using get_session_all_free[OF assms, of "Some uid"] g by simp
  have sf: "access s = ''free''" using get_session_free[OF assms g] .
  have "access (fst (set_access_value s r)) = ''free''" for r
    using sf by (simp add: set_access_value_free)
  then show ?thesis
    using f unfolding Some setaccess_command_def g
    by (auto simp: all_free_def Let_def split: prod.splits) (metis fst_conv)
qed

lemma reset_all_free:
  assumes "all_free sessions"
  shows "all_free (fst (reset_command sessions user))"
  using assms by (cases user) (auto simp: reset_command_def store_reset_def all_free_def new_session_def)

lemma reachable_all_free: "reachable sessions \<Longrightarrow> all_free sessions"
proof (induction rule: reachable.induct)
  case started
  then show ?case by (simp add: all_free_def)
next
  case (retrieved sessions user)
  then show ?case by (simp add: get_session_all_free)
next
  case (reset sessions user)
  then show ?case by (simp add: reset_all_free)
next
  case (access_set sessions user is_admin args)
  then show ?case by (simp add: setaccess_all_free)
next
  case (handled sessions uid session sessions' session')
  have "all_free sessions'"
    using get_session_all_free[OF handled.IH, of "Some uid"] handled.hyps(2) by simp
  moreover have "access session = ''free''"
    using get_session_free[OF handled.IH handled.hyps(2)] .
  ultimately show ?case
    using handled.hyps(3) by (auto simp: all_free_def)
qed

text \<open>
  The handlers of the model that are not named in the rules of \<open>reachable\<close> keep the
  access of the session they retrieved, so their results are reachable by rule \<open>handled\<close>.
\<close>

lemma kill_active_states_access: "access (fst (kill_active_states s)) = access s"
  by (simp add: kill_active_states_def Let_def)

lemma builtin_lesson_access: "access (fst (builtin_lesson bank s)) = access s"
  by (auto simp: builtin_lesson_def Let_def split: option.splits)

lemma lesson_command_body_access:
  "access (fst (lesson_command_body lib bank fresh_id ai ex s)) = access s"
proof -
  have a: "access (sync_ai_curriculum_level (s\<lparr>assistant_mode := False\<rparr>)) = access s"
    by (simp add: sync_ai_curriculum_level_def)
  show ?thesis
    unfolding lesson_command_body_def Let_def
    using a builtin_lesson_access[of bank "sync_ai_curriculum_level (s\<lparr>assistant_mode := False\<rparr>)"]
    by (auto simp: remember_ai_lesson_title_def Let_def split: option.splits prod.splits sum.splits)
qed

lemma handle_simulation_answer_access: "access (fst (handle_simulation_answer s text)) = access s"
  by (auto simp: handle_simulation_answer_def set_simulation_direction_def Let_def
      split: option.splits)

lemma handle_daily_challenge_answer_access:
  "access (fst (handle_daily_challenge_answer s text)) = access s"
  by (auto simp: handle_daily_challenge_answer_def Let_def split: option.splits)

lemma kill_command_reachable:
  assumes "reachable sessions"
  shows "reachable (fst (kill_command sessions user))"
proof (cases user)
  case None
  then show ?thesis using assms by (simp add: kill_command_def)
next
  case (Some uid)
  obtain s sessions' where g: "get_session sessions (Some uid) = (Some s, sessions')"
    by (simp add: get_session_cases)
  have "reachable (sessions'(uid \<mapsto> fst (kill_active_states s)))"
    using assms g kill_active_states_access by (rule reachable.handled)
  then show ?thesis
    unfolding Some kill_command_def g by (simp add: split_beta)
qed

lemma lesson_command_reachable:
  assumes "reachable sessions"
  shows "reachable (fst (lesson_command lib bank fresh_id ai ex sessions user))"
proof (cases user)
  case None
  then show ?thesis using assms by (simp add: lesson_command_def)
next
  case (Some uid)
  obtain s sessions' where g: "get_session sessions (Some uid) = (Some s, sessions')"
    by (simp add: get_session_cases)
  have "reachable (sessions'(uid \<mapsto> fst (lesson_command_body lib bank fresh_id ai ex s)))"
    using assms g lesson_command_body_access by (rule reachable.handled)
  then show ?thesis
    unfolding Some lesson_command_def g by (simp add: split_beta)
qed

text \<open>
  C10: \<open>_get_session\<close> never returns a session with premium access, the access setter
  turns a premium request into free access, and in every repository the event interface
  can reach, every stored session and every session a handler retrieves has free access.
\<close>

theorem access_always_free:
  "(\<forall>sessions user s sessions'. get_session sessions user = (Some s, sessions')
        \<longrightarrow> access s \<noteq> ''premium'')
   \<and> (\<forall>s. access (fst (set_access_value s ''premium'')) = ''free'')
   \<and> (\<forall>sessions. reachable sessions \<longrightarrow>
         (\<forall>uid s. sessions uid = Some s \<longrightarrow> access s = ''free'')
       \<and> (\<forall>user s sessions'. get_session sessions user = (Some s, sessions')
             \<longrightarrow> access s = ''free''))"
proof (intro conjI allI impI)
  fix sessions user s sessions'
  assume "get_session sessions user = (Some s, sessions')"
  then show "access s \<noteq> ''premium''" by (rule get_session_not_premium)
next
  fix s show "access (fst (set_access_value s ''premium'')) = ''free''"
    by (simp add: set_access_value_free)
next
  fix sessions uid s
  assume "reachable sessions" "sessions uid = Some s"
  then show "access s = ''free''"
    using reachable_all_free by (auto simp: all_free_def)
next
  fix sessions user s sessions'
  assume "reachable sessions" "get_session sessions user = (Some s, sessions')"
  then show "access s = ''free''"
    using reachable_all_free get_session_free by blast
qed

theorem access_always_free_witness:
  "reachable (fst (setaccess_command Map.empty (Some 7) True [''Premium'']))
   \<and> (\<exists>s. fst (setaccess_command Map.empty (Some 7) True [''Premium'']) 7 = Some s
          \<and> access s = ''free'')"
proof -
  let ?st = "fst (setaccess_command Map.empty (Some 7) True [''Premium''])"
  have r: "reachable ?st"
    by (rule reachable.access_set[OF reachable.started])
  have "?st 7 \<noteq> None"
    by (simp add: setaccess_command_def get_session_cases split_beta)
  then obtain s where s: "?st 7 = Some s" by blast
  with r access_always_free have "access s = ''free''" by blast
  with r s show ?thesis by blast
qed

end
